theory Spec2Isabelle
  imports Main "HOL-Library.AList" "HOL-Library.Sublist"
begin

section \<open>Python values, errors and builtins\<close>

text \<open>
  The dashboard code of \<^verbatim>\<open>distributionFunctions.py\<close> and \<^verbatim>\<open>exportTemplate.py\<close>
  reads a UI state object and produces a dictionary of floats and script text.
  Python values that the code only stores or formats are kept opaque (type \<open>'v\<close>);
  the two builtins applied to them are parameters of every function below:
  \<^item> \<open>pfloat\<close> stands for \<^verbatim>\<open>float(s)\<close> on a string: \<open>None\<close> is the
    \<^verbatim>\<open>ValueError\<close> that Python raises for text that is no number;
  \<^item> \<open>pstr\<close> stands for the text an f-string puts for \<^verbatim>\<open>{value}\<close>, that is
    \<^verbatim>\<open>str(value)\<close>.
  An exception is a value \<open>Inl e\<close> of the result.
\<close>

datatype py_error =
    ValueError
  | KeyError string
  | ValidationError
  | CheckerError string

type_synonym 'a result = "py_error + 'a"

text \<open>
  \<open>ValueError\<close> is what \<^verbatim>\<open>float\<close> raises, \<open>KeyError k\<close> what \<^verbatim>\<open>d[k]\<close> raises
  for a missing key, \<open>CheckerError\<close> is any exception coming out of the lattice
  parameter checker. \<open>ValidationError\<close> is the error class named by the
  specification; no function below constructs it.
\<close>

definition bind_result :: "'a result \<Rightarrow> ('a \<Rightarrow> 'b result) \<Rightarrow> 'b result" where
  "bind_result r f = (case r of Inl e \<Rightarrow> Inl e | Inr x \<Rightarrow> f x)"

text \<open>Python's \<^verbatim>\<open>sep.join(parts)\<close>.\<close>

fun join :: "string \<Rightarrow> string list \<Rightarrow> string" where
  "join sep [] = []"
| "join sep [x] = x"
| "join sep (x # y # ys) = x @ sep @ join sep (y # ys)"

text \<open>
  A Python \<^verbatim>\<open>dict\<close> with string keys: an association list with distinct keys in
  insertion order. \<^verbatim>\<open>d[k] = v\<close> is \<^const>\<open>AList.update\<close>: an existing key keeps
  its position and takes the new value, a new key goes to the end.
\<close>

type_synonym 'v pydict = "(string \<times> 'v) list"

section \<open>The UI state\<close>

text \<open>
  One entry of \<^verbatim>\<open>state.selectedDistributionParameters\<close>: a dictionary with the three
  keys the validator reads, the default value being the text the user typed. A record
  that lacks one of the keys is outside this type.
\<close>

record param =
  parameter_name :: string
  parameter_default_value :: string
  parameter_error_message :: "string list"

text \<open>
  One entry of \<^verbatim>\<open>state.selectedLatticeList\<close>: a dictionary, of which the exporter
  reads the key \<^verbatim>\<open>"name"\<close> and hands the whole to the parameter checker.
\<close>

type_synonym 'v element = "string \<rightharpoonup> 'v"

text \<open>
  The fields of the UI state that the exporter reads. The distribution kind and type are
  strings; the numeric inputs are values that the template only formats.
\<close>

record 'v state =
  particle_shape :: 'v
  kin_energy_MeV :: 'v
  bunch_charge_C :: 'v
  npart :: 'v
  charge_qe :: 'v
  mass_MeV :: 'v
  selectedDistribution :: string
  selectedDistributionType :: string
  selectedDistributionParameters :: "param list"
  selectedLatticeList :: "'v element list"

section \<open>distributionFunctions.py\<close>

text \<open>
  \<^verbatim>\<open>
  parameter_input = {
      param["parameter_name"]: float(param["parameter_default_value"])
      if param_is_valid
      else 0.0
      for param in state.selectedDistributionParameters
      if (param_is_valid := param["parameter_error_message"] == [])
  }
  \<close>
  The comprehension is a loop over the records that fills a dictionary. The filter
  binds \<^verbatim>\<open>param_is_valid\<close>; the value expression tests it again. \<open>zero\<close> is the
  literal \<^verbatim>\<open>0.0\<close> of the \<^verbatim>\<open>else\<close> branch.
\<close>

fun parameter_input_loop ::
  "(string \<Rightarrow> 'v option) \<Rightarrow> 'v \<Rightarrow> param list \<Rightarrow> 'v pydict \<Rightarrow> 'v pydict result" where
  "parameter_input_loop pfloat zero [] acc = Inr acc"
| "parameter_input_loop pfloat zero (param # rest) acc =
     (let param_is_valid = (parameter_error_message param = []) in
      if param_is_valid then
        bind_result
          (if param_is_valid
           then (case pfloat (parameter_default_value param) of
                   None \<Rightarrow> Inl ValueError
                 | Some v \<Rightarrow> Inr v)
           else Inr zero)
          (\<lambda>v. parameter_input_loop pfloat zero rest
                 (AList.update (parameter_name param) v acc))
      else parameter_input_loop pfloat zero rest acc)"

definition convert_distribution_parameters_to_valid_type ::
  "(string \<Rightarrow> 'v option) \<Rightarrow> 'v \<Rightarrow> 'v state \<Rightarrow> 'v pydict result" where
  "convert_distribution_parameters_to_valid_type pfloat zero st =
     parameter_input_loop pfloat zero (selectedDistributionParameters st) []"

section \<open>exportTemplate.py\<close>

subsection \<open>build_distribution_list\<close>

definition build_distribution_list ::
  "(string \<Rightarrow> 'v option) \<Rightarrow> 'v \<Rightarrow> ('v \<Rightarrow> string) \<Rightarrow> 'v state \<Rightarrow> string result" where
  "build_distribution_list pfloat zero pstr st =
     (let distribution_name = selectedDistribution st in
      bind_result (convert_distribution_parameters_to_valid_type pfloat zero st)
        (\<lambda>parameters.
           let indentation =
                 replicate (if selectedDistributionType st = ''Twiss'' then 8 else 4) CHR '' '';
               distribution_parameters =
                 join '',\<newline>'' (map (\<lambda>(key, value). indentation @ key @ ''='' @ pstr value)
                                   parameters)
           in if selectedDistributionType st = ''Twiss'' then
                Inr (''distr = distribution.'' @ distribution_name @ ''(\<newline>''
                     @ ''    **twiss(\<newline>''
                     @ distribution_parameters @ '',\<newline>''
                     @ ''    )\<newline>''
                     @ '')'')
              else
                Inr (''distr = distribution.'' @ distribution_name @ ''(\<newline>''
                     @ distribution_parameters @ '',\<newline>''
                     @ '')'')))"

subsection \<open>build_lattice_list\<close>

text \<open>
  \<^verbatim>\<open>parameter_input_checker_for_lattice\<close> lives in \<^verbatim>\<open>latticeMain.py\<close>, outside the
  files at hand; it is the parameter \<open>checker\<close>, a function from an element to a
  dictionary or an exception.

  The generator expression renders one element; \<^verbatim>\<open>element["name"]\<close> is evaluated
  before the checker is called.
\<close>

definition element_call ::
  "('v \<Rightarrow> string) \<Rightarrow> ('v element \<Rightarrow> 'v pydict result) \<Rightarrow> 'v element \<Rightarrow> string result" where
  "element_call pstr checker element =
     bind_result (case element ''name'' of
                    None \<Rightarrow> Inl (KeyError ''name'')
                  | Some n \<Rightarrow> Inr n)
       (\<lambda>n. bind_result (checker element)
          (\<lambda>checked.
             Inr (''elements.'' @ pstr n @ ''(''
                  @ join '', '' (map (\<lambda>(key, value). key @ ''='' @ pstr value) checked)
                  @ '')'')))"

text \<open>\<^verbatim>\<open>join\<close> consumes the generator element by element; the first exception ends it.\<close>

fun element_calls ::
  "('v \<Rightarrow> string) \<Rightarrow> ('v element \<Rightarrow> 'v pydict result) \<Rightarrow> 'v element list \<Rightarrow> string list result" where
  "element_calls pstr checker [] = Inr []"
| "element_calls pstr checker (element # rest) =
     bind_result (element_call pstr checker element)
       (\<lambda>c. bind_result (element_calls pstr checker rest) (\<lambda>cs. Inr (c # cs)))"

definition build_lattice_list ::
  "('v \<Rightarrow> string) \<Rightarrow> ('v element \<Rightarrow> 'v pydict result) \<Rightarrow> 'v state \<Rightarrow> string result" where
  "build_lattice_list pstr checker st =
     bind_result (element_calls pstr checker (selectedLatticeList st))
       (\<lambda>calls.
          let lattice_elements = join '',\<newline>    '' calls
          in Inr (''lattice_configuration = [\<newline>    '' @ lattice_elements @ ''\<newline>]''))"

subsection \<open>input_file\<close>

text \<open>
  The template is one f-string; it starts with a line break. Its expressions are
  evaluated from left to right, so the distribution is rendered before the lattice and
  the first exception ends the export.
\<close>

definition input_file ::
  "(string \<Rightarrow> 'v option) \<Rightarrow> 'v \<Rightarrow> ('v \<Rightarrow> string) \<Rightarrow> ('v element \<Rightarrow> 'v pydict result)
     \<Rightarrow> 'v state \<Rightarrow> string result" where
  "input_file pfloat zero pstr checker st =
     bind_result (build_distribution_list pfloat zero pstr st)
       (\<lambda>distribution_text.
          bind_result (build_lattice_list pstr checker st)
            (\<lambda>lattice_text.
               Inr (''\<newline>''
                 @ ''from impactx import ImpactX, distribution, elements, twiss\<newline>''
                 @ ''\<newline>''
                 @ ''sim = ImpactX()\<newline>''
                 @ ''\<newline>''
                 @ ''sim.particle_shape = '' @ pstr (particle_shape st) @ ''\<newline>''
                 @ ''sim.space_charge = False\<newline>''
                 @ ''sim.csr = False\<newline>''
                 @ ''sim.slice_step_diagnostics = True\<newline>''
                 @ ''\<newline>''
                 @ ''sim.init_grids()\<newline>''
                 @ ''\<newline>''
                 @ ''# Initialize particle beam\<newline>''
                 @ ''kin_energy_MeV = '' @ pstr (kin_energy_MeV st) @ ''\<newline>''
                 @ ''bunch_charge_C = '' @ pstr (bunch_charge_C st) @ ''\<newline>''
                 @ ''npart = '' @ pstr (npart st) @ ''\<newline>''
                 @ ''\<newline>''
                 @ ''# Reference particle\<newline>''
                 @ ''ref = sim.particle_container().ref_particle()\<newline>''
                 @ ''ref.set_charge_qe('' @ pstr (charge_qe st)
                 @ '').set_mass_MeV('' @ pstr (mass_MeV st)
                 @ '').set_kin_energy_MeV(kin_energy_MeV)\<newline>''
                 @ ''\<newline>''
                 @ distribution_text @ ''\<newline>''
                 @ ''sim.add_particles(bunch_charge_C, distr, npart)\<newline>''
                 @ ''\<newline>''
                 @ lattice_text @ ''\<newline>''
                 @ ''sim.lattice.extend(lattice_configuration)\<newline>''
                 @ ''\<newline>''
                 @ ''# Simulate\<newline>''
                 @ ''sim.track_particles()\<newline>''
                 @ ''\<newline>''
                 @ ''sim.finalize()\<newline>'')))"

section \<open>Notions used to state the properties\<close>

subsection \<open>The entries the comprehension visits\<close>

text \<open>
  The key and parsed value of every record that passes the filter, in input order,
  duplicates included.
\<close>

definition valid_entries :: "(string \<Rightarrow> 'v option) \<Rightarrow> param list \<Rightarrow> (string \<times> 'v) list" where
  "valid_entries pfloat ps =
     map (\<lambda>p. (parameter_name p, the (pfloat (parameter_default_value p))))
       (filter (\<lambda>p. parameter_error_message p = []) ps)"

subsection \<open>Statements occurring in order\<close>

text \<open>
  \<open>skip_past p s\<close> is the text after the first occurrence of \<open>p\<close> in \<open>s\<close>;
  \<open>occur_in_order ps s\<close> holds when the texts \<open>ps\<close> occur in \<open>s\<close> one after the
  other, without overlap.
\<close>

fun skip_past :: "string \<Rightarrow> string \<Rightarrow> string option" where
  "skip_past p [] = (if p = [] then Some [] else None)"
| "skip_past p (c # cs) =
     (if prefix p (c # cs) then Some (drop (length p) (c # cs)) else skip_past p cs)"

fun occur_in_order :: "string list \<Rightarrow> string \<Rightarrow> bool" where
  "occur_in_order [] s = True"
| "occur_in_order (p # ps) s =
     (case skip_past p s of None \<Rightarrow> False | Some r \<Rightarrow> occur_in_order ps r)"

text \<open>The engine lifecycle, as the statements of the exported script.\<close>

definition lifecycle_statements :: "string list" where
  "lifecycle_statements =
     [''sim.particle_shape = '',
      ''sim.space_charge = False'',
      ''sim.csr = False'',
      ''sim.slice_step_diagnostics = True'',
      ''sim.init_grids()'',
      ''ref = sim.particle_container().ref_particle()'',
      ''ref.set_charge_qe('',
      '').set_mass_MeV('',
      '').set_kin_energy_MeV(kin_energy_MeV)'',
      ''distr = distribution.'',
      ''sim.add_particles(bunch_charge_C, distr, npart)'',
      ''lattice_configuration = ['',
      ''sim.lattice.extend(lattice_configuration)'',
      ''sim.track_particles()'',
      ''sim.finalize()'']"

subsection \<open>Reading the constructor call back\<close>

text \<open>
  The reader of the round-trip property. It takes the text of a distribution
  constructor call laid out one argument per line, as \<^verbatim>\<open>build_distribution_list\<close>
  writes it and as the example scripts have it, and reads it the way Python reads
  source text: argument names are identifiers that are no keywords, values are float
  literals, no name is repeated, and an argument \<^verbatim>\<open>**twiss(...)\<close> is a single unpacked
  argument of the constructor, not a list of its keywords. It knows nothing of the
  dictionary the text was rendered from.
\<close>

text \<open>
  The arguments of a call: keyword arguments \<^verbatim>\<open>k=v, ...\<close>, or the single argument
  \<^verbatim>\<open>**f(k=v, ...)\<close>, kept with the name \<open>f\<close> and the keyword arguments of that inner
  call.
\<close>

datatype 'a arguments =
    Keywords "(string \<times> 'a) list"
  | Unpacked string "(string \<times> 'a) list"

text \<open>Python's \<^verbatim>\<open>text.split(c)\<close> for a one-character separator.\<close>

fun split_on :: "char \<Rightarrow> string \<Rightarrow> string list" where
  "split_on c [] = [[]]"
| "split_on c (x # xs) =
     (if x = c then [] # split_on c xs
      else (case split_on c xs of [] \<Rightarrow> [[x]] | l # ls \<Rightarrow> (x # l) # ls))"

definition identifier_char :: "char \<Rightarrow> bool" where
  "identifier_char c \<longleftrightarrow>
     c \<in> set ''abcdefghijklmnopqrstuvwxyzABCDEFGHIJKLMNOPQRSTUVWXYZ0123456789_''"

definition is_identifier :: "string \<Rightarrow> bool" where
  "is_identifier s \<longleftrightarrow> s \<noteq> [] \<and> list_all identifier_char s \<and> hd s \<notin> set ''0123456789''"

definition python_keywords :: "string list" where
  "python_keywords =
     [''False'', ''None'', ''True'', ''and'', ''as'', ''assert'', ''async'', ''await'',
      ''break'', ''class'', ''continue'', ''def'', ''del'', ''elif'', ''else'', ''except'',
      ''finally'', ''for'', ''from'', ''global'', ''if'', ''import'', ''in'', ''is'',
      ''lambda'', ''nonlocal'', ''not'', ''or'', ''pass'', ''raise'', ''return'', ''try'',
      ''while'', ''with'', ''yield'']"

text \<open>A name that may stand left of \<^verbatim>\<open>=\<close> in a call.\<close>

definition is_argument_name :: "string \<Rightarrow> bool" where
  "is_argument_name s \<longleftrightarrow> is_identifier s \<and> s \<notin> set python_keywords"

definition digits :: "string \<Rightarrow> bool" where
  "digits s \<longleftrightarrow> list_all (\<lambda>c. c \<in> set ''0123456789'') s"

text \<open>
  A float literal of Python source, with an optional minus sign in front: digits with a
  point or an exponent or both (\<^verbatim>\<open>0.25\<close>, \<^verbatim>\<open>1e-09\<close>, \<^verbatim>\<open>-2.5e+16\<close>, \<^verbatim>\<open>1.\<close>, \<^verbatim>\<open>.5\<close>).
  The texts \<^verbatim>\<open>inf\<close> and \<^verbatim>\<open>nan\<close>, which \<^verbatim>\<open>float\<close> accepts and prints, are names in
  source text and no literals.
\<close>

definition is_float_literal :: "string \<Rightarrow> bool" where
  "is_float_literal s \<longleftrightarrow>
     list_all (\<lambda>c. c \<in> set ''0123456789.eE+-'') s \<and>
     (let unsigned = (case s of [] \<Rightarrow> [] | c # cs \<Rightarrow> if c = CHR ''-'' then cs else s);
          mantissa = takeWhile (\<lambda>c. c \<notin> set ''eE'') unsigned;
          exponent = dropWhile (\<lambda>c. c \<notin> set ''eE'') unsigned;
          whole = takeWhile (\<lambda>c. c \<noteq> CHR ''.'') mantissa;
          fraction = dropWhile (\<lambda>c. c \<noteq> CHR ''.'') mantissa
      in digits whole \<and> (fraction = [] \<or> digits (tl fraction))
         \<and> (whole \<noteq> [] \<or> (fraction \<noteq> [] \<and> tl fraction \<noteq> []))
         \<and> (fraction \<noteq> [] \<or> exponent \<noteq> [])
         \<and> (exponent = [] \<or>
              (let signed = tl exponent;
                   power = (case signed of [] \<Rightarrow> []
                            | c # cs \<Rightarrow> if c = CHR ''+'' \<or> c = CHR ''-'' then cs else signed)
               in power \<noteq> [] \<and> digits power)))"

text \<open>
  One argument line: indentation, an argument name, \<^verbatim>\<open>=\<close>, a float literal, a comma.
  The literal is read with \<open>pfloat\<close>.
\<close>

definition parse_argument :: "(string \<Rightarrow> 'v option) \<Rightarrow> string \<Rightarrow> (string \<times> 'v) option" where
  "parse_argument pfloat line =
     (let body = dropWhile (\<lambda>c. c = CHR '' '') line in
      if body = [] \<or> last body \<noteq> CHR '','' then None
      else
        let arg = butlast body;
            key = takeWhile (\<lambda>c. c \<noteq> CHR ''='') arg;
            rest = dropWhile (\<lambda>c. c \<noteq> CHR ''='') arg
        in if \<not> is_argument_name key \<or> rest = [] \<or> \<not> is_float_literal (tl rest) then None
           else map_option (Pair key) (pfloat (tl rest)))"

text \<open>The keyword arguments of a list of argument lines; a repeated name is refused.\<close>

definition keyword_arguments ::
  "(string \<Rightarrow> 'v option) \<Rightarrow> string list \<Rightarrow> (string \<times> 'v) list option" where
  "keyword_arguments pfloat ls =
     (case those (map (parse_argument pfloat) ls) of
        None \<Rightarrow> None
      | Some kws \<Rightarrow> if distinct (map fst kws) then Some kws else None)"

definition strip_closing :: "string list \<Rightarrow> string list \<Rightarrow> string list option" where
  "strip_closing closing ls =
     (if length closing \<le> length ls \<and> drop (length ls - length closing) ls = closing
      then Some (take (length ls - length closing) ls) else None)"

text \<open>
  The argument lines of the constructor call \<^verbatim>\<open>distr = distribution.<Kind>(\<close> ...
  \<^verbatim>\<open>)\<close>, and whether they stand inside a \<^verbatim>\<open>**twiss(\<close> ... \<^verbatim>\<open>)\<close> argument.
\<close>

definition argument_lines :: "string list \<Rightarrow> (string option \<times> string list) option" where
  "argument_lines ls =
     (case ls of
        [] \<Rightarrow> None
      | opening # rest \<Rightarrow>
          if \<not> prefix ''distr = distribution.'' opening \<or> last opening \<noteq> CHR ''(''
             \<or> \<not> is_identifier (butlast (drop (length ''distr = distribution.'') opening))
          then None
          else (case rest of
                  [] \<Rightarrow> None
                | second # rest' \<Rightarrow>
                    if second = ''    **twiss(''
                    then map_option (Pair (Some ''twiss'')) (strip_closing [''    )'', '')''] rest')
                    else map_option (Pair None) (strip_closing ['')''] rest)))"

definition reparse_call :: "(string \<Rightarrow> 'v option) \<Rightarrow> string \<Rightarrow> 'v arguments option" where
  "reparse_call pfloat text =
     (case argument_lines (split_on CHR ''\<newline>'' text) of
        None \<Rightarrow> None
      | Some (wrapper, ls) \<Rightarrow>
          (case keyword_arguments pfloat ls of
             None \<Rightarrow> None
           | Some kws \<Rightarrow>
               Some (case wrapper of None \<Rightarrow> Keywords kws | Some f \<Rightarrow> Unpacked f kws)))"

text \<open>
  The constructor call read as a keyword-to-value mapping: its keyword arguments, when
  keyword arguments are all it has.
\<close>

definition reparse_keywords :: "(string \<Rightarrow> 'v option) \<Rightarrow> string \<Rightarrow> (string \<times> 'v) list option" where
  "reparse_keywords pfloat text =
     (case reparse_call pfloat text of
        Some (Keywords kws) \<Rightarrow> Some kws
      | _ \<Rightarrow> None)"

section \<open>A sample interpretation and sample states\<close>

text \<open>
  To evaluate the model, floats are represented by their printed form: \<open>sample_float\<close>
  knows a few numerals and maps each to what Python prints for its float (\<^verbatim>\<open>1e400\<close>
  is beyond the largest float and gives \<^verbatim>\<open>inf\<close>),
  \<open>sample_str\<close> prints a value as it is. \<open>sample_checker\<close> returns the \<^verbatim>\<open>ds\<close> and
  \<^verbatim>\<open>k\<close> entries of an element.
\<close>

definition sample_float :: "string \<Rightarrow> string option" where
  "sample_float =
     map_of [(''0'', ''0.0''), (''0.0'', ''0.0''), (''1'', ''1.0''), (''1.0'', ''1.0''),
             (''0.25'', ''0.25''), (''2e3'', ''2000.0''), (''2000.0'', ''2000.0''),
             (''1.16098260008648811e-3'', ''0.0011609826000864882''),
             (''0.0011609826000864882'', ''0.0011609826000864882''),
             (''1e400'', ''inf''), (''inf'', ''inf'')]"

definition sample_str :: "string \<Rightarrow> string" where
  "sample_str v = v"

definition sample_checker :: "string element \<Rightarrow> string pydict result" where
  "sample_checker e =
     Inr ((case e ''ds'' of None \<Rightarrow> [] | Some d \<Rightarrow> [(''ds'', d)])
          @ (case e ''k'' of None \<Rightarrow> [] | Some k \<Rightarrow> [(''k'', k)]))"

definition sample_state :: "string state" where
  "sample_state =
     \<lparr>particle_shape = ''2'', kin_energy_MeV = ''2000.0'', bunch_charge_C = ''1e-09'',
      npart = ''10000'', charge_qe = ''1.0'', mass_MeV = ''938.27208816'',
      selectedDistribution = ''Waterbag'',
      selectedDistributionType = ''Native'',
      selectedDistributionParameters =
        [\<lparr>parameter_name = ''lambdaX'', parameter_default_value = ''1.16098260008648811e-3'',
          parameter_error_message = []\<rparr>,
         \<lparr>parameter_name = ''lambdaY'', parameter_default_value = ''abc'',
          parameter_error_message = [''Must be a float'']\<rparr>,
         \<lparr>parameter_name = ''muxpx'', parameter_default_value = ''0'',
          parameter_error_message = []\<rparr>],
      selectedLatticeList =
        [[''name'' \<mapsto> ''Quad'', ''ds'' \<mapsto> ''1.0'', ''k'' \<mapsto> ''0.25''],
         [''name'' \<mapsto> ''Drift'', ''ds'' \<mapsto> ''1.0'']]\<rparr>"

text \<open>The same inputs with the Twiss parametrisation selected.\<close>

definition twiss_state :: "string state" where
  "twiss_state = sample_state\<lparr>selectedDistributionType := ''Twiss''\<rparr>"

text \<open>Two valid records with the same name, the first and the third.\<close>

definition duplicate_state :: "string state" where
  "duplicate_state = sample_state\<lparr>selectedDistributionParameters :=
     [\<lparr>parameter_name = ''lambdaX'', parameter_default_value = ''1'',
       parameter_error_message = []\<rparr>,
      \<lparr>parameter_name = ''muxpx'', parameter_default_value = ''0'',
       parameter_error_message = []\<rparr>,
      \<lparr>parameter_name = ''lambdaX'', parameter_default_value = ''0.25'',
       parameter_error_message = []\<rparr>]\<rparr>"

text \<open>A record that carries no error message and whose text is no number.\<close>

definition unparseable_state :: "string state" where
  "unparseable_state = sample_state\<lparr>selectedDistributionParameters :=
     [\<lparr>parameter_name = ''lambdaX'', parameter_default_value = ''abc'',
       parameter_error_message = []\<rparr>]\<rparr>"

text \<open>Every record carries an error message, and the lattice is empty.\<close>

definition rejected_state :: "string state" where
  "rejected_state = sample_state\<lparr>selectedDistributionParameters :=
     [\<lparr>parameter_name = ''lambdaX'', parameter_default_value = ''abc'',
       parameter_error_message = [''Must be a float'']\<rparr>],
     selectedLatticeList := []\<rparr>"

text \<open>The second element of the lattice has no \<^verbatim>\<open>"name"\<close> key.\<close>

definition unnamed_state :: "string state" where
  "unnamed_state = sample_state\<lparr>selectedLatticeList :=
     [[''name'' \<mapsto> ''Quad'', ''ds'' \<mapsto> ''1.0'', ''k'' \<mapsto> ''0.25''],
      [''ds'' \<mapsto> ''1.0'']]\<rparr>"

text \<open>A Twiss parametrisation: the type is \<^verbatim>\<open>"Twiss"\<close> and the parameters are Twiss's.\<close>

definition twiss_beam_state :: "string state" where
  "twiss_beam_state = sample_state\<lparr>selectedDistributionType := ''Twiss'',
     selectedDistributionParameters :=
       [\<lparr>parameter_name = ''alpha_x'', parameter_default_value = ''0'',
         parameter_error_message = []\<rparr>,
        \<lparr>parameter_name = ''beta_x'', parameter_default_value = ''1'',
         parameter_error_message = []\<rparr>,
        \<lparr>parameter_name = ''emitt_x'', parameter_default_value = ''0.25'',
         parameter_error_message = []\<rparr>]\<rparr>"

text \<open>A value that carries no error message and is beyond the largest float.\<close>

definition overflow_state :: "string state" where
  "overflow_state = sample_state\<lparr>selectedDistributionParameters :=
     [\<lparr>parameter_name = ''lambdaX'', parameter_default_value = ''1e400'',
       parameter_error_message = []\<rparr>]\<rparr>"

text \<open>The script exported for \<open>sample_state\<close>.\<close>

definition sample_script :: string where
  "sample_script =
         ''\<newline>''
       @ ''from impactx import ImpactX, distribution, elements, twiss\<newline>''
       @ ''\<newline>''
       @ ''sim = ImpactX()\<newline>''
       @ ''\<newline>''
       @ ''sim.particle_shape = 2\<newline>''
       @ ''sim.space_charge = False\<newline>''
       @ ''sim.csr = False\<newline>''
       @ ''sim.slice_step_diagnostics = True\<newline>''
       @ ''\<newline>''
       @ ''sim.init_grids()\<newline>''
       @ ''\<newline>''
       @ ''# Initialize particle beam\<newline>''
       @ ''kin_energy_MeV = 2000.0\<newline>''
       @ ''bunch_charge_C = 1e-09\<newline>''
       @ ''npart = 10000\<newline>''
       @ ''\<newline>''
       @ ''# Reference particle\<newline>''
       @ ''ref = sim.particle_container().ref_particle()\<newline>''
       @ ''ref.set_charge_qe(1.0).set_mass_MeV(938.27208816).set_kin_energy_MeV(kin_energy_MeV)\<newline>''
       @ ''\<newline>''
       @ ''distr = distribution.Waterbag(\<newline>''
       @ ''    lambdaX=0.0011609826000864882,\<newline>''
       @ ''    muxpx=0.0,\<newline>''
       @ '')\<newline>''
       @ ''sim.add_particles(bunch_charge_C, distr, npart)\<newline>''
       @ ''\<newline>''
       @ ''lattice_configuration = [\<newline>''
       @ ''    elements.Quad(ds=1.0, k=0.25),\<newline>''
       @ ''    elements.Drift(ds=1.0)\<newline>''
       @ '']\<newline>''
       @ ''sim.lattice.extend(lattice_configuration)\<newline>''
       @ ''\<newline>''
       @ ''# Simulate\<newline>''
       @ ''sim.track_particles()\<newline>''
       @ ''\<newline>''
       @ ''sim.finalize()\<newline>''"

section \<open>Auxiliary facts\<close>

subsection \<open>Results and the comprehension loop\<close>

lemma bind_result_Inr_iff:
  "bind_result r f = Inr y \<longleftrightarrow> (\<exists>x. r = Inr x \<and> f x = Inr y)"
  by (cases r) (simp_all add: bind_result_def)

lemma bind_result_simps:
  "bind_result (Inl e) f = Inl e" "bind_result (Inr x) f = f x"
  by (simp_all add: bind_result_def)

lemma loop_Cons:
  "parameter_input_loop pf z (p # ps) acc =
     (if parameter_error_message p = [] then
        (case pf (parameter_default_value p) of
           None \<Rightarrow> Inl ValueError
         | Some v \<Rightarrow> parameter_input_loop pf z ps (AList.update (parameter_name p) v acc))
      else parameter_input_loop pf z ps acc)"
  by (simp add: Let_def bind_result_def split: option.splits)

declare parameter_input_loop.simps(2) [simp del]

lemma loop_filter:
  "parameter_input_loop pf z ps acc =
   parameter_input_loop pf z (filter (\<lambda>p. parameter_error_message p = []) ps) acc"
  by (induction ps arbitrary: acc) (simp_all add: loop_Cons split: option.splits)

lemma loop_zero:
  "parameter_input_loop pf z ps acc = parameter_input_loop pf z' ps acc"
  by (induction ps arbitrary: acc) (simp_all add: loop_Cons split: option.splits)

lemma loop_ValueError:
  "p \<in> set ps \<Longrightarrow> parameter_error_message p = [] \<Longrightarrow> pf (parameter_default_value p) = None
    \<Longrightarrow> parameter_input_loop pf z ps acc = Inl ValueError"
proof (induction ps arbitrary: acc)
  case Nil
  then show ?case by simp
next
  case (Cons q qs)
  show ?case
  proof (cases "parameter_error_message q = [] \<and> pf (parameter_default_value q) = None")
    case True
    then show ?thesis by (simp add: loop_Cons)
  next
    case False
    with Cons.prems have "p \<in> set qs" by auto
    from Cons.IH[OF this Cons.prems(2,3)] show ?thesis
      by (simp add: loop_Cons split: option.splits)
  qed
qed

lemma loop_only_ValueError:
  "parameter_input_loop pf z ps acc = Inl e \<Longrightarrow> e = ValueError"
  by (induction ps arbitrary: acc) (auto simp add: loop_Cons split: option.splits if_splits)

lemma loop_Inr:
  "parameter_input_loop pf z ps acc = Inr m \<Longrightarrow>
     m = fold (\<lambda>(k, v). AList.update k v) (valid_entries pf ps) acc \<and>
     (\<forall>p\<in>set ps. parameter_error_message p = [] \<longrightarrow> pf (parameter_default_value p) \<noteq> None)"
proof (induction ps arbitrary: acc)
  case Nil
  then show ?case by (simp add: valid_entries_def)
next
  case (Cons q qs)
  show ?case
  proof (cases "parameter_error_message q = []")
    case False
    with Cons show ?thesis by (simp add: valid_entries_def loop_Cons)
  next
    case True
    with Cons.prems obtain v where v: "pf (parameter_default_value q) = Some v"
      and r: "parameter_input_loop pf z qs (AList.update (parameter_name q) v acc) = Inr m"
      by (auto simp add: loop_Cons split: option.splits)
    from Cons.IH[OF r] True v show ?thesis by (simp add: valid_entries_def)
  qed
qed

lemma loop_total:
  "(\<forall>p\<in>set ps. parameter_error_message p = [] \<longrightarrow> pf (parameter_default_value p) \<noteq> None)
    \<Longrightarrow> \<exists>m. parameter_input_loop pf z ps acc = Inr m"
  by (induction ps arbitrary: acc) (auto simp add: loop_Cons split: option.splits)

lemma fold_update_map_of:
  "map_of (fold (\<lambda>(k, v). AList.update k v) es acc) = map_of acc ++ map_of (rev es)"
proof (induction es arbitrary: acc)
  case Nil show ?case by simp
next
  case (Cons e es)
  obtain k v where e: "e = (k, v)" by (cases e)
  show ?case unfolding e
    apply (simp add: Cons.IH update_conv')
    apply (rule ext)
    apply (simp add: map_add_def split: option.splits)
    done
qed

lemma fold_update_distinct:
  "distinct (map fst acc) \<Longrightarrow> distinct (map fst (fold (\<lambda>(k, v). AList.update k v) es acc))"
  by (induction es arbitrary: acc) (auto simp: distinct_update)

lemma remdups_drop_earlier:
  "k \<in> set ys \<Longrightarrow> remdups (xs @ k # ys) = remdups (xs @ ys)"
  by (induction xs) auto

lemma fold_update_keys:
  "distinct (map fst acc) \<Longrightarrow>
   map fst (fold (\<lambda>(k, v). AList.update k v) es acc) = rev (remdups (rev (map fst acc @ map fst es)))"
proof (induction es arbitrary: acc)
  case Nil
  then show ?case by (simp add: distinct_remdups_id)
next
  case (Cons e es)
  obtain k v where e: "e = (k, v)" by (cases e)
  have d: "distinct (map fst (AList.update k v acc))" using Cons.prems by (rule distinct_update)
  show ?case
  proof (cases "k \<in> set (map fst acc)")
    case True
    then have "remdups (rev (map fst es) @ k # rev (map fst acc)) = remdups (rev (map fst es) @ rev (map fst acc))"
      by (intro remdups_drop_earlier) simp
    with True Cons.IH[OF d] show ?thesis unfolding e by (simp add: update_keys)
  next
    case False
    with Cons.IH[OF d] show ?thesis unfolding e by (simp add: update_keys)
  qed
qed


lemma find_snoc:
  "List.find P (xs @ [x]) = (case List.find P xs of None \<Rightarrow> (if P x then Some x else None) | Some y \<Rightarrow> Some y)"
  by (induction xs) auto

lemma map_of_rev_valid_entries:
  "(\<forall>p\<in>set ps. parameter_error_message p = [] \<longrightarrow> pf (parameter_default_value p) \<noteq> None) \<Longrightarrow>
   map_of (rev (valid_entries pf ps)) k =
     (case List.find (\<lambda>p. parameter_error_message p = [] \<and> parameter_name p = k) (rev ps) of
        None \<Rightarrow> None
      | Some p \<Rightarrow> pf (parameter_default_value p))"
proof (induction ps rule: rev_induct)
  case Nil
  show ?case by (simp add: valid_entries_def)
next
  case (snoc q qs)
  then have IH: "map_of (rev (valid_entries pf qs)) k =
     (case List.find (\<lambda>p. parameter_error_message p = [] \<and> parameter_name p = k) (rev qs) of
        None \<Rightarrow> None
      | Some p \<Rightarrow> pf (parameter_default_value p))" by simp
  have e: "valid_entries pf (qs @ [q]) =
     valid_entries pf qs @ (if parameter_error_message q = [] then [(parameter_name q, the (pf (parameter_default_value q)))] else [])"
    by (simp add: valid_entries_def)
  from snoc.prems have q: "parameter_error_message q = [] \<Longrightarrow> \<exists>v. pf (parameter_default_value q) = Some v"
    by auto
  show ?case using IH q by (auto simp add: e)
qed

lemma set_fold_update:
  "set (fold (\<lambda>(k, v). AList.update k v) es acc) \<subseteq> set acc \<union> set es"
proof (induction es arbitrary: acc)
  case Nil show ?case by simp
next
  case (Cons e es)
  obtain k v where e: "e = (k, v)" by (cases e)
  have "set (AList.update k v acc) \<subseteq> insert (k, v) (set acc)"
    by (induction acc) auto
  with Cons.IH[of "AList.update k v acc"] show ?case unfolding e by auto
qed

lemma dom_fold_update:
  "fst ` set (fold (\<lambda>(k, v). AList.update k v) es acc) = fst ` set acc \<union> fst ` set es"
proof (induction es arbitrary: acc)
  case Nil show ?case by simp
next
  case (Cons e es)
  obtain k v where e: "e = (k, v)" by (cases e)
  show ?case unfolding e by (simp add: Cons.IH dom_update)
qed

lemma update_fresh:
  "k \<notin> fst ` set al \<Longrightarrow> AList.update k v al = al @ [(k, v)]"
  by (induction al) auto

lemma fold_update_fresh:
  "distinct (map fst (acc @ es)) \<Longrightarrow> fold (\<lambda>(k, v). AList.update k v) es acc = acc @ es"
proof (induction es arbitrary: acc)
  case Nil show ?case by simp
next
  case (Cons e es)
  obtain k v where e: "e = (k, v)" by (cases e)
  from Cons.prems have f: "k \<notin> fst ` set acc" unfolding e by auto
  from Cons.prems have d: "distinct (map fst ((acc @ [(k, v)]) @ es))" unfolding e by auto
  show ?case unfolding e using Cons.IH[OF d] by (simp add: update_fresh[OF f])
qed

lemma valid_entries_Some:
  "(\<forall>p\<in>set ps. parameter_error_message p = [] \<longrightarrow> pf (parameter_default_value p) \<noteq> None) \<Longrightarrow>
   map (\<lambda>(k, v). (k, Some v)) (valid_entries pf ps) =
   map (\<lambda>p. (parameter_name p, pf (parameter_default_value p)))
     (filter (\<lambda>p. parameter_error_message p = []) ps)"
  by (induction ps) (auto simp add: valid_entries_def)

lemma map_fst_valid_entries:
  "map fst (valid_entries pf ps) = map parameter_name (filter (\<lambda>p. parameter_error_message p = []) ps)"
  by (simp add: valid_entries_def comp_def)

lemma convert_Inr:
  assumes "convert_distribution_parameters_to_valid_type pf z st = Inr m"
  shows "m = fold (\<lambda>(k, v). AList.update k v) (valid_entries pf (selectedDistributionParameters st)) []"
    and "\<forall>p\<in>set (selectedDistributionParameters st).
           parameter_error_message p = [] \<longrightarrow> pf (parameter_default_value p) \<noteq> None"
  using loop_Inr[OF assms[unfolded convert_distribution_parameters_to_valid_type_def]] by simp_all

lemma convert_values:
  assumes "convert_distribution_parameters_to_valid_type pf z st = Inr m"
    and "(k, v) \<in> set m"
  shows "\<exists>p\<in>set (selectedDistributionParameters st).
           parameter_error_message p = [] \<and> parameter_name p = k
           \<and> pf (parameter_default_value p) = Some v"
proof -
  let ?ps = "selectedDistributionParameters st"
  note m = convert_Inr(1)[OF assms(1)] and ok = convert_Inr(2)[OF assms(1)]
  from assms(2) set_fold_update[of "valid_entries pf ?ps" "[]"]
  have "(k, v) \<in> set (valid_entries pf ?ps)" unfolding m by auto
  then obtain p where p: "p \<in> set ?ps" "parameter_error_message p = []"
    "k = parameter_name p" "v = the (pf (parameter_default_value p))"
    by (auto simp add: valid_entries_def)
  with ok have "pf (parameter_default_value p) = Some v" by auto
  with p show ?thesis by blast
qed

lemma convert_ValueError:
  "p \<in> set (selectedDistributionParameters st) \<Longrightarrow> parameter_error_message p = []
    \<Longrightarrow> pf (parameter_default_value p) = None
    \<Longrightarrow> convert_distribution_parameters_to_valid_type pf z st = Inl ValueError"
  unfolding convert_distribution_parameters_to_valid_type_def by (rule loop_ValueError)

subsection \<open>Rendering the lattice\<close>

lemma element_call_Inr_iff:
  "element_call pstr checker e = Inr c \<longleftrightarrow>
     (\<exists>n kvs. e ''name'' = Some n \<and> checker e = Inr kvs
        \<and> c = ''elements.'' @ pstr n @ ''(''
              @ join '', '' (map (\<lambda>(key, value). key @ ''='' @ pstr value) kvs) @ '')'')"
  by (cases "e ''name''"; cases "checker e")
     (auto simp add: element_call_def bind_result_simps)

lemma element_call_unnamed:
  "e ''name'' = None \<Longrightarrow> element_call pstr checker e = Inl (KeyError ''name'')"
  by (simp add: element_call_def bind_result_simps)

lemma element_call_cases:
  "(\<exists>kvs. checker e = Inr kvs) \<Longrightarrow>
     element_call pstr checker e = Inl (KeyError ''name'') \<or> (\<exists>c. element_call pstr checker e = Inr c)"
  by (cases "e ''name''") (auto simp add: element_call_def bind_result_simps)

lemma element_calls_Inr:
  "element_calls pstr checker es = Inr cs \<Longrightarrow>
     list_all2 (\<lambda>e c. element_call pstr checker e = Inr c) es cs"
proof (induction es arbitrary: cs)
  case Nil
  then show ?case by simp
next
  case (Cons e es)
  from Cons.prems obtain c cs' where c: "element_call pstr checker e = Inr c"
    and cs': "element_calls pstr checker es = Inr cs'" and eq: "cs = c # cs'"
    by (auto simp add: bind_result_Inr_iff)
  from Cons.IH[OF cs'] c eq show ?case by simp
qed

lemma element_calls_fail:
  "e \<in> set es \<Longrightarrow> element_call pstr checker e = Inl err
     \<Longrightarrow> \<exists>err'. element_calls pstr checker es = Inl err'"
proof (induction es)
  case Nil
  then show ?case by simp
next
  case (Cons x xs)
  show ?case
  proof (cases "element_call pstr checker x")
    case (Inl a)
    then show ?thesis by (simp add: bind_result_simps)
  next
    case (Inr c)
    with Cons.prems have "e \<in> set xs" by auto
    from Cons.IH[OF this Cons.prems(2)] obtain err' where
      "element_calls pstr checker xs = Inl err'" by blast
    with Inr show ?thesis by (simp add: bind_result_simps)
  qed
qed

lemma element_calls_KeyError:
  "e \<in> set es \<Longrightarrow> e ''name'' = None \<Longrightarrow> \<forall>x\<in>set es. \<exists>kvs. checker x = Inr kvs
     \<Longrightarrow> element_calls pstr checker es = Inl (KeyError ''name'')"
proof (induction es)
  case Nil
  then show ?case by simp
next
  case (Cons x xs)
  from Cons.prems(3) have "\<exists>kvs. checker x = Inr kvs" by simp
  with element_call_cases[of checker x pstr]
  have "element_call pstr checker x = Inl (KeyError ''name'')
      \<or> (\<exists>c. element_call pstr checker x = Inr c)" by blast
  then show ?case
  proof
    assume "element_call pstr checker x = Inl (KeyError ''name'')"
    then show ?thesis by (simp add: bind_result_simps)
  next
    assume "\<exists>c. element_call pstr checker x = Inr c"
    then obtain c where c: "element_call pstr checker x = Inr c" ..
    then have "x ''name'' \<noteq> None" by (auto simp add: element_call_Inr_iff)
    with Cons.prems have "e \<in> set xs" by auto
    from Cons.IH[OF this Cons.prems(2)] Cons.prems(3)
    have "element_calls pstr checker xs = Inl (KeyError ''name'')" by simp
    with c show ?thesis by (simp add: bind_result_simps)
  qed
qed

lemma list_all2_pick:
  "list_all2 P xs ys \<Longrightarrow> x \<in> set xs \<Longrightarrow> \<exists>y\<in>set ys. P x y"
  by (induction rule: list_all2_induct) auto

lemma join_contains:
  "c \<in> set cs \<Longrightarrow> \<exists>pre post. join sep cs = pre @ c @ post"
proof (induction sep cs rule: join.induct)
  case (1 sep)
  then show ?case by simp
next
  case (2 sep x)
  then have "join sep [x] = [] @ c @ []" by simp
  then show ?case by blast
next
  case (3 sep x y ys)
  show ?case
  proof (cases "c = x")
    case True
    then have "join sep (x # y # ys) = [] @ c @ (sep @ join sep (y # ys))" by simp
    then show ?thesis by blast
  next
    case False
    with 3 obtain pre post where "join sep (y # ys) = pre @ c @ post" by auto
    then have "join sep (x # y # ys) = (x @ sep @ pre) @ c @ post" by simp
    then show ?thesis by blast
  qed
qed

lemma build_lattice_list_Inr:
  "build_lattice_list pstr checker st = Inr text \<longleftrightarrow>
     (\<exists>calls. element_calls pstr checker (selectedLatticeList st) = Inr calls
        \<and> text = ''lattice_configuration = [\<newline>    '' @ join '',\<newline>    '' calls @ ''\<newline>]'')"
  unfolding build_lattice_list_def bind_result_Inr_iff Let_def by blast

subsection \<open>Rendering the distribution\<close>

lemma build_distribution_list_Inr:
  "build_distribution_list pfloat zero pstr st = Inr text \<longleftrightarrow>
     (\<exists>m. convert_distribution_parameters_to_valid_type pfloat zero st = Inr m
        \<and> text =
           (if selectedDistributionType st = ''Twiss'' then
              ''distr = distribution.'' @ selectedDistribution st @ ''(\<newline>''
              @ ''    **twiss(\<newline>''
              @ join '',\<newline>'' (map (\<lambda>(key, value). replicate 8 CHR '' '' @ key @ ''='' @ pstr value) m)
              @ '',\<newline>'' @ ''    )\<newline>'' @ '')''
            else
              ''distr = distribution.'' @ selectedDistribution st @ ''(\<newline>''
              @ join '',\<newline>'' (map (\<lambda>(key, value). replicate 4 CHR '' '' @ key @ ''='' @ pstr value) m)
              @ '',\<newline>'' @ '')''))"
  unfolding build_distribution_list_def Let_def bind_result_Inr_iff
  by (cases "selectedDistributionType st = ''Twiss''") (simp_all add: eq_commute)

lemma replicate_8_space: "replicate 8 CHR '' '' = ''        ''"
  by (simp add: numeral_eq_Suc)

lemma replicate_4_space: "replicate 4 CHR '' '' = ''    ''"
  by (simp add: numeral_eq_Suc)

subsection \<open>Texts occurring in order\<close>

lemma skip_past_prefix:
  "prefix p s \<Longrightarrow> skip_past p s = Some (drop (length p) s)"
  by (cases s) auto

lemma suffix_drop_append:
  "n \<le> length xs \<Longrightarrow> suffix post (drop n (xs @ post))"
  by (simp add: suffix_def)

lemma skip_past_found:
  "\<exists>r. skip_past p (pre @ p @ post) = Some r \<and> suffix post r"
proof (induction pre)
  case Nil
  have "skip_past p (p @ post) = Some (drop (length p) (p @ post))"
    by (rule skip_past_prefix) simp
  then show ?case by simp
next
  case (Cons c pre)
  show ?case
  proof (cases "prefix p (c # pre @ p @ post)")
    case True
    have "suffix post (drop (length p) ((c # pre @ p) @ post))"
      by (rule suffix_drop_append) simp
    then have "suffix post (drop (length p) (c # pre @ p @ post))" by simp
    with True show ?thesis by simp
  next
    case False
    with Cons.IH show ?thesis by simp
  qed
qed

lemma skip_past_Some:
  "skip_past p s = Some r \<Longrightarrow> \<exists>pre. s = pre @ p @ r"
proof (induction s)
  case Nil
  then show ?case by (simp split: if_splits)
next
  case (Cons c cs)
  show ?case
  proof (cases "prefix p (c # cs)")
    case True
    with Cons.prems have r: "r = drop (length p) (c # cs)" by simp
    from True obtain zs where "c # cs = p @ zs" by (auto simp add: prefix_def)
    with r have "c # cs = [] @ p @ r" by simp
    then show ?thesis by blast
  next
    case False
    with Cons.prems have "skip_past p cs = Some r" by simp
    from Cons.IH[OF this] obtain pre where "cs = pre @ p @ r" ..
    then have "c # cs = (c # pre) @ p @ r" by simp
    then show ?thesis by blast
  qed
qed

lemma occur_in_order_suffix:
  "occur_in_order ps s \<Longrightarrow> suffix s t \<Longrightarrow> occur_in_order ps t"
proof (induction ps arbitrary: s t)
  case Nil
  show ?case by simp
next
  case (Cons p ps)
  from Cons.prems(1) obtain r where r: "skip_past p s = Some r" and o: "occur_in_order ps r"
    by (auto split: option.splits)
  from skip_past_Some[OF r] obtain pre where s: "s = pre @ p @ r" ..
  from Cons.prems(2) obtain u where t: "t = u @ s" by (auto simp add: suffix_def)
  from skip_past_found[of p "u @ pre" r] obtain r' where
    r': "skip_past p ((u @ pre) @ p @ r) = Some r'" and sr: "suffix r r'" by blast
  from Cons.IH[OF o sr] have "occur_in_order ps r'" .
  with r' show ?case unfolding t s by simp
qed

lemma occur_in_order_Cons:
  "occur_in_order ps post \<Longrightarrow> occur_in_order (p # ps) (pre @ p @ post)"
proof -
  assume o: "occur_in_order ps post"
  from skip_past_found[of p pre post] obtain r where
    r: "skip_past p (pre @ p @ post) = Some r" and s: "suffix post r" by blast
  from occur_in_order_suffix[OF o s] r show ?thesis by simp
qed

lemma occur_in_order_segments:
  "occur_in_order (map snd segs) (concat (map (\<lambda>(pre, mark). pre @ mark) segs) @ rest)"
proof (induction segs)
  case Nil
  show ?case by simp
next
  case (Cons seg segs)
  obtain pre mark where seg: "seg = (pre, mark)" by (cases seg)
  from occur_in_order_Cons[OF Cons.IH, of mark pre] show ?case unfolding seg by simp
qed

subsection \<open>The script template\<close>

lemma build_distribution_list_opening:
  "build_distribution_list pfloat zero pstr st = Inr text \<Longrightarrow>
     \<exists>rest. text = ''distr = distribution.'' @ rest"
  unfolding build_distribution_list_Inr
  by (cases "selectedDistributionType st = ''Twiss''") auto

lemma build_lattice_list_opening:
  "build_lattice_list pstr checker st = Inr text \<Longrightarrow>
     \<exists>rest. text = ''lattice_configuration = ['' @ rest"
  unfolding build_lattice_list_Inr by auto

lemma input_file_Inr:
  "input_file pfloat zero pstr checker st = Inr script \<Longrightarrow>
   \<exists>distribution_text lattice_text.
     build_distribution_list pfloat zero pstr st = Inr distribution_text
   \<and> build_lattice_list pstr checker st = Inr lattice_text
   \<and> script = ''\<newline>''
                 @ ''from impactx import ImpactX, distribution, elements, twiss\<newline>''
                 @ ''\<newline>''
                 @ ''sim = ImpactX()\<newline>''
                 @ ''\<newline>''
                 @ ''sim.particle_shape = '' @ pstr (particle_shape st) @ ''\<newline>''
                 @ ''sim.space_charge = False\<newline>''
                 @ ''sim.csr = False\<newline>''
                 @ ''sim.slice_step_diagnostics = True\<newline>''
                 @ ''\<newline>''
                 @ ''sim.init_grids()\<newline>''
                 @ ''\<newline>''
                 @ ''# Initialize particle beam\<newline>''
                 @ ''kin_energy_MeV = '' @ pstr (kin_energy_MeV st) @ ''\<newline>''
                 @ ''bunch_charge_C = '' @ pstr (bunch_charge_C st) @ ''\<newline>''
                 @ ''npart = '' @ pstr (npart st) @ ''\<newline>''
                 @ ''\<newline>''
                 @ ''# Reference particle\<newline>''
                 @ ''ref = sim.particle_container().ref_particle()\<newline>''
                 @ ''ref.set_charge_qe('' @ pstr (charge_qe st)
                 @ '').set_mass_MeV('' @ pstr (mass_MeV st)
                 @ '').set_kin_energy_MeV(kin_energy_MeV)\<newline>''
                 @ ''\<newline>''
                 @ distribution_text @ ''\<newline>''
                 @ ''sim.add_particles(bunch_charge_C, distr, npart)\<newline>''
                 @ ''\<newline>''
                 @ lattice_text @ ''\<newline>''
                 @ ''sim.lattice.extend(lattice_configuration)\<newline>''
                 @ ''\<newline>''
                 @ ''# Simulate\<newline>''
                 @ ''sim.track_particles()\<newline>''
                 @ ''\<newline>''
                 @ ''sim.finalize()\<newline>''"
  unfolding input_file_def bind_result_Inr_iff
  by (elim exE conjE, intro exI conjI) (assumption, assumption, simp only: sum.inject eq_commute)

subsection \<open>Reading rendered arguments back\<close>

lemma split_on_nonempty: "split_on c s \<noteq> []"
  by (induction s) (auto split: list.splits)

lemma split_on_absent: "c \<notin> set l \<Longrightarrow> split_on c l = [l]"
  by (induction l) auto














subsection \<open>When the lattice is rendered\<close>

lemma element_calls_total:
  "\<forall>x\<in>set es. \<exists>n checked. x ''name'' = Some n \<and> checker x = Inr checked
     \<Longrightarrow> \<exists>cs. element_calls pstr checker es = Inr cs"
proof (induction es)
  case Nil
  show ?case by simp
next
  case (Cons e es)
  from Cons.prems obtain n checked where "e ''name'' = Some n" "checker e = Inr checked"
    by auto
  then have "\<exists>c. element_call pstr checker e = Inr c"
    unfolding element_call_Inr_iff by (intro exI conjI) simp_all
  then obtain c where c: "element_call pstr checker e = Inr c" ..
  from Cons have "\<exists>cs. element_calls pstr checker es = Inr cs" by simp
  then obtain cs where "element_calls pstr checker es = Inr cs" ..
  with c show ?case by (simp add: bind_result_simps)
qed

lemma element_calls_named:
  assumes "element_calls pstr checker es = Inr cs" and "x \<in> set es"
  shows "\<exists>n checked. x ''name'' = Some n \<and> checker x = Inr checked"
proof -
  from list_all2_pick[OF element_calls_Inr[OF assms(1)] assms(2)] obtain c where
    "element_call pstr checker x = Inr c" by (elim bexE)
  then show ?thesis unfolding element_call_Inr_iff by (elim exE conjE, intro exI conjI)
qed

lemma build_lattice_list_returns_iff:
  "(\<exists>rendered. build_lattice_list pstr checker st = Inr rendered) \<longleftrightarrow>
   (\<forall>x\<in>set (selectedLatticeList st). \<exists>n checked. x ''name'' = Some n \<and> checker x = Inr checked)"
proof
  assume "\<exists>rendered. build_lattice_list pstr checker st = Inr rendered"
  then obtain rendered calls where
    "element_calls pstr checker (selectedLatticeList st) = Inr calls"
    unfolding build_lattice_list_Inr by (elim exE conjE)
  from element_calls_named[OF this]
  show "\<forall>x\<in>set (selectedLatticeList st). \<exists>n checked. x ''name'' = Some n \<and> checker x = Inr checked"
    by (intro ballI)
next
  assume "\<forall>x\<in>set (selectedLatticeList st). \<exists>n checked. x ''name'' = Some n \<and> checker x = Inr checked"
  from element_calls_total[OF this, of pstr] obtain cs where
    "element_calls pstr checker (selectedLatticeList st) = Inr cs" ..
  then have "build_lattice_list pstr checker st
      = Inr (''lattice_configuration = [\<newline>    '' @ join '',\<newline>    '' cs @ ''\<newline>]'')"
    by (simp add: build_lattice_list_def bind_result_simps)
  then show "\<exists>rendered. build_lattice_list pstr checker st = Inr rendered" ..
qed

lemmas sample_defs =
  sample_state_def twiss_state_def duplicate_state_def unparseable_state_def
  rejected_state_def unnamed_state_def twiss_beam_state_def overflow_state_def sample_float_def sample_str_def sample_checker_def
  convert_distribution_parameters_to_valid_type_def



section \<open>Properties of the parameter validator\<close>

text \<open>
  Claim C1. Whenever \<^verbatim>\<open>convert_distribution_parameters_to_valid_type\<close> returns a
  dictionary \<open>m\<close>:
  \<^item> the keys of \<open>m\<close> are exactly the names of the records whose error list is empty;
  \<^item> every value in \<open>m\<close> is the float parse of the default value of a record with that
    name and an empty error list;
  \<^item> the records with a non-empty error list contribute nothing: without them the
    result is the same \<open>m\<close>;
  \<^item> when the valid records have distinct names, \<open>m\<close> has one entry per valid
    record, in order, with the float parse of that record's default value.
\<close>

theorem validated_mapping_entries:
  assumes "convert_distribution_parameters_to_valid_type pfloat zero st = Inr m"
  shows "(\<forall>k. k \<in> fst ` set m \<longleftrightarrow>
            (\<exists>p\<in>set (selectedDistributionParameters st).
               parameter_error_message p = [] \<and> parameter_name p = k))
       \<and> (\<forall>(k, v)\<in>set m. \<exists>p\<in>set (selectedDistributionParameters st).
            parameter_error_message p = [] \<and> parameter_name p = k
            \<and> pfloat (parameter_default_value p) = Some v)
       \<and> convert_distribution_parameters_to_valid_type pfloat zero
            (st\<lparr>selectedDistributionParameters :=
                 filter (\<lambda>p. parameter_error_message p = []) (selectedDistributionParameters st)\<rparr>)
          = Inr m
       \<and> (distinct (map parameter_name
              (filter (\<lambda>p. parameter_error_message p = []) (selectedDistributionParameters st))) \<longrightarrow>
            map (\<lambda>(k, v). (k, Some v)) m =
            map (\<lambda>p. (parameter_name p, pfloat (parameter_default_value p)))
              (filter (\<lambda>p. parameter_error_message p = []) (selectedDistributionParameters st)))"
proof -
  let ?ps = "selectedDistributionParameters st"
  note m = convert_Inr(1)[OF assms] and ok = convert_Inr(2)[OF assms]
  have keys: "\<forall>k. k \<in> fst ` set m \<longleftrightarrow>
            (\<exists>p\<in>set ?ps. parameter_error_message p = [] \<and> parameter_name p = k)"
    unfolding m dom_fold_update by (auto simp add: valid_entries_def image_iff)
  have vals: "\<forall>(k, v)\<in>set m. \<exists>p\<in>set ?ps.
            parameter_error_message p = [] \<and> parameter_name p = k
            \<and> pfloat (parameter_default_value p) = Some v"
  proof (clarify)
    fix k v assume "(k, v) \<in> set m"
    with set_fold_update[of "valid_entries pfloat ?ps" "[]"] have "(k, v) \<in> set (valid_entries pfloat ?ps)"
      unfolding m by auto
    then obtain p where p: "p \<in> set ?ps" "parameter_error_message p = []"
      "k = parameter_name p" "v = the (pfloat (parameter_default_value p))"
      by (auto simp add: valid_entries_def)
    with ok have "pfloat (parameter_default_value p) = Some v" by auto
    with p show "\<exists>p\<in>set ?ps. parameter_error_message p = [] \<and> parameter_name p = k
            \<and> pfloat (parameter_default_value p) = Some v" by blast
  qed
  have filt: "convert_distribution_parameters_to_valid_type pfloat zero
            (st\<lparr>selectedDistributionParameters := filter (\<lambda>p. parameter_error_message p = []) ?ps\<rparr>)
          = Inr m"
    using assms loop_filter[of pfloat zero ?ps "[]"]
    by (simp add: convert_distribution_parameters_to_valid_type_def)
  have dist: "distinct (map parameter_name (filter (\<lambda>p. parameter_error_message p = []) ?ps)) \<longrightarrow>
            map (\<lambda>(k, v). (k, Some v)) m =
            map (\<lambda>p. (parameter_name p, pfloat (parameter_default_value p)))
              (filter (\<lambda>p. parameter_error_message p = []) ?ps)"
  proof
    assume "distinct (map parameter_name (filter (\<lambda>p. parameter_error_message p = []) ?ps))"
    then have "distinct (map fst ([] @ valid_entries pfloat ?ps))" by (simp add: map_fst_valid_entries)
    from fold_update_fresh[OF this] have "m = valid_entries pfloat ?ps" unfolding m by simp
    with valid_entries_Some[OF ok] show "map (\<lambda>(k, v). (k, Some v)) m =
            map (\<lambda>p. (parameter_name p, pfloat (parameter_default_value p)))
              (filter (\<lambda>p. parameter_error_message p = []) ?ps)" by simp
  qed
  from keys vals filt dist show ?thesis by blast
qed

theorem validated_mapping_entries_witness:
  "convert_distribution_parameters_to_valid_type sample_float ''0.0'' sample_state
     = Inr [(''lambdaX'', ''0.0011609826000864882''), (''muxpx'', ''0.0'')]
   \<and> convert_distribution_parameters_to_valid_type sample_float ''0.0''
        (sample_state\<lparr>selectedDistributionParameters :=
           filter (\<lambda>p. parameter_error_message p = [])
             (selectedDistributionParameters sample_state)\<rparr>)
     = Inr [(''lambdaX'', ''0.0011609826000864882''), (''muxpx'', ''0.0'')]
   \<and> ''lambdaY'' \<notin> fst ` set [(''lambdaX'', ''0.0011609826000864882''), (''muxpx'', ''0.0'')]"
proof -
  have h: "convert_distribution_parameters_to_valid_type sample_float ''0.0'' sample_state
     = Inr [(''lambdaX'', ''0.0011609826000864882''), (''muxpx'', ''0.0'')]"
    by (simp add: sample_defs loop_Cons)
  from validated_mapping_entries[OF h] h show ?thesis by simp
qed

text \<open>
  Claim C7. Whenever the validator returns a dictionary \<open>m\<close>, its keys are the names
  of the valid records in input order, each name at the place of its first valid
  record (\<open>rev \<circ> remdups \<circ> rev\<close> keeps the first of equal names); no key occurs
  twice; and the value under a name is the float parse of the last valid record
  with that name.
\<close>

theorem validated_mapping_order_last_wins:
  assumes "convert_distribution_parameters_to_valid_type pfloat zero st = Inr m"
  shows "map fst m = rev (remdups (rev (map parameter_name
            (filter (\<lambda>p. parameter_error_message p = []) (selectedDistributionParameters st)))))
       \<and> distinct (map fst m)
       \<and> (\<forall>k. map_of m k =
            (case List.find (\<lambda>p. parameter_error_message p = [] \<and> parameter_name p = k)
                    (rev (selectedDistributionParameters st)) of
               None \<Rightarrow> None
             | Some p \<Rightarrow> pfloat (parameter_default_value p)))"
proof -
  let ?ps = "selectedDistributionParameters st"
  note m = convert_Inr(1)[OF assms] and ok = convert_Inr(2)[OF assms]
  have "map fst m = rev (remdups (rev (map fst ([]::(string \<times> 'a) list) @ map fst (valid_entries pfloat ?ps))))"
    unfolding m by (rule fold_update_keys) simp
  then have a: "map fst m = rev (remdups (rev (map parameter_name
            (filter (\<lambda>p. parameter_error_message p = []) ?ps))))"
    by (simp add: map_fst_valid_entries)
  have b: "distinct (map fst m)" unfolding m by (rule fold_update_distinct) simp
  have c: "\<forall>k. map_of m k =
            (case List.find (\<lambda>p. parameter_error_message p = [] \<and> parameter_name p = k) (rev ?ps) of
               None \<Rightarrow> None
             | Some p \<Rightarrow> pfloat (parameter_default_value p))"
    unfolding m fold_update_map_of using map_of_rev_valid_entries[OF ok] by simp
  from a b c show ?thesis by blast
qed

theorem validated_mapping_order_last_wins_witness:
  "convert_distribution_parameters_to_valid_type sample_float ''0.0'' duplicate_state
     = Inr [(''lambdaX'', ''0.25''), (''muxpx'', ''0.0'')]
   \<and> map fst [(''lambdaX'', ''0.25''), (''muxpx'', ''0.0'')] =
       rev (remdups (rev (map parameter_name
         (filter (\<lambda>p. parameter_error_message p = [])
            (selectedDistributionParameters duplicate_state)))))
   \<and> map_of [(''lambdaX'', ''0.25''), (''muxpx'', ''0.0'')] ''lambdaX'' = sample_float ''0.25''"
proof -
  have h: "convert_distribution_parameters_to_valid_type sample_float ''0.0'' duplicate_state
     = Inr [(''lambdaX'', ''0.25''), (''muxpx'', ''0.0'')]"
    by (simp add: sample_defs loop_Cons)
  from validated_mapping_order_last_wins[OF h] have
    "map fst [(''lambdaX'', ''0.25''), (''muxpx'', ''0.0'')] =
       rev (remdups (rev (map parameter_name
         (filter (\<lambda>p. parameter_error_message p = [])
            (selectedDistributionParameters duplicate_state)))))"
    by blast
  with h show ?thesis by (simp add: sample_float_def)
qed

text \<open>
  Claim C9. The \<^verbatim>\<open>else 0.0\<close> branch of the comprehension is never taken: the result
  of the validator does not depend on the value of that literal, and every value of a
  returned dictionary is the float parse of the default value of a valid record.
\<close>

theorem else_branch_unreachable:
  "convert_distribution_parameters_to_valid_type pfloat zero st
     = convert_distribution_parameters_to_valid_type pfloat zero' st
   \<and> (\<forall>m. convert_distribution_parameters_to_valid_type pfloat zero st = Inr m \<longrightarrow>
        (\<forall>(k, v)\<in>set m. \<exists>p\<in>set (selectedDistributionParameters st).
            parameter_error_message p = [] \<and> parameter_name p = k
            \<and> pfloat (parameter_default_value p) = Some v))"
proof -
  have "convert_distribution_parameters_to_valid_type pfloat zero st
     = convert_distribution_parameters_to_valid_type pfloat zero' st"
    unfolding convert_distribution_parameters_to_valid_type_def by (rule loop_zero)
  moreover have "\<forall>m. convert_distribution_parameters_to_valid_type pfloat zero st = Inr m \<longrightarrow>
        (\<forall>(k, v)\<in>set m. \<exists>p\<in>set (selectedDistributionParameters st).
            parameter_error_message p = [] \<and> parameter_name p = k
            \<and> pfloat (parameter_default_value p) = Some v)"
    using convert_values by fast
  ultimately show ?thesis by blast
qed

theorem else_branch_unreachable_witness:
  "convert_distribution_parameters_to_valid_type sample_float ''0.0'' sample_state
     = convert_distribution_parameters_to_valid_type sample_float ''7.5'' sample_state
   \<and> convert_distribution_parameters_to_valid_type sample_float ''7.5'' sample_state
     = Inr [(''lambdaX'', ''0.0011609826000864882''), (''muxpx'', ''0.0'')]
   \<and> sample_float ''1.16098260008648811e-3'' = Some ''0.0011609826000864882''
   \<and> sample_float ''0'' = Some ''0.0''"
proof -
  have h: "convert_distribution_parameters_to_valid_type sample_float ''7.5'' sample_state
     = Inr [(''lambdaX'', ''0.0011609826000864882''), (''muxpx'', ''0.0'')]"
    by (simp add: sample_defs loop_Cons)
  from else_branch_unreachable[of sample_float "''0.0''" sample_state "''7.5''"] h
  show ?thesis by (simp add: sample_float_def)
qed

text \<open>
  Claim C6 says that a record with an empty error list and a default value that is no
  number makes the validator fail with a \<^verbatim>\<open>ValidationError\<close>. The code has no such
  error class: the \<^verbatim>\<open>ValueError\<close> of \<^verbatim>\<open>float\<close> leaves the comprehension as it is.
\<close>

theorem unparseable_value_counterexample:
  "convert_distribution_parameters_to_valid_type sample_float ''0.0'' unparseable_state
     = Inl ValueError
   \<and> convert_distribution_parameters_to_valid_type sample_float ''0.0'' unparseable_state
     \<noteq> Inl ValidationError"
  by (simp add: sample_defs loop_Cons)

text \<open>
  Claim C6, amended. If some record has an empty error list and a default value that
  \<^verbatim>\<open>float\<close> rejects, the validator raises \<^verbatim>\<open>ValueError\<close>, and the exception passes
  unhandled through \<^verbatim>\<open>build_distribution_list\<close> and \<^verbatim>\<open>input_file\<close>.
\<close>

theorem unparseable_value_raises_ValueError:
  assumes "p \<in> set (selectedDistributionParameters st)"
    and "parameter_error_message p = []"
    and "pfloat (parameter_default_value p) = None"
  shows "convert_distribution_parameters_to_valid_type pfloat zero st = Inl ValueError
       \<and> build_distribution_list pfloat zero pstr st = Inl ValueError
       \<and> input_file pfloat zero pstr checker st = Inl ValueError"
  using convert_ValueError[of p st pfloat zero] assms
  by (simp add: build_distribution_list_def input_file_def bind_result_simps)

theorem unparseable_value_raises_ValueError_witness:
  "\<lparr>parameter_name = ''lambdaX'', parameter_default_value = ''abc'',
       parameter_error_message = []\<rparr> \<in> set (selectedDistributionParameters unparseable_state)
   \<and> sample_float ''abc'' = None
   \<and> convert_distribution_parameters_to_valid_type sample_float ''0.0'' unparseable_state
       = Inl ValueError
   \<and> build_distribution_list sample_float ''0.0'' sample_str unparseable_state = Inl ValueError
   \<and> input_file sample_float ''0.0'' sample_str sample_checker unparseable_state
       = Inl ValueError"
proof -
  let ?p = "\<lparr>parameter_name = ''lambdaX'', parameter_default_value = ''abc'',
       parameter_error_message = []\<rparr>"
  have a: "?p \<in> set (selectedDistributionParameters unparseable_state)"
    by (simp add: unparseable_state_def)
  have b: "parameter_error_message ?p = []" by simp
  have c: "sample_float (parameter_default_value ?p) = None" by (simp add: sample_float_def)
  from unparseable_value_raises_ValueError[of ?p unparseable_state sample_float "''0.0''"
      sample_str sample_checker] a b c
  show ?thesis by simp
qed

section \<open>Properties of the lattice renderer\<close>

text \<open>
  Claim C3. Whenever \<^verbatim>\<open>build_lattice_list\<close> returns a text, the text is
  \<^verbatim>\<open>lattice_configuration = [\<close>, the constructor calls joined by a comma, a line
  break and four spaces, and the closing bracket; there are as many calls as elements,
  and the call at each position is \<^verbatim>\<open>elements.<name>(key=value, ...)\<close> of the element
  at that position, with the keys and values the checker returns for it.
\<close>

theorem lattice_one_call_per_element_in_order:
  assumes "build_lattice_list pstr checker st = Inr text"
  shows "\<exists>calls.
           text = ''lattice_configuration = [\<newline>    '' @ join '',\<newline>    '' calls @ ''\<newline>]''
         \<and> length calls = length (selectedLatticeList st)
         \<and> list_all2
             (\<lambda>element call. \<exists>n checked.
                element ''name'' = Some n \<and> checker element = Inr checked
                \<and> call = ''elements.'' @ pstr n @ ''(''
                     @ join '', '' (map (\<lambda>(key, value). key @ ''='' @ pstr value) checked)
                     @ '')'')
             (selectedLatticeList st) calls"
proof -
  from assms obtain calls where
    c: "element_calls pstr checker (selectedLatticeList st) = Inr calls"
    and t: "text = ''lattice_configuration = [\<newline>    '' @ join '',\<newline>    '' calls @ ''\<newline>]''"
    unfolding build_lattice_list_Inr by (elim exE conjE)
  from element_calls_Inr[OF c]
  have l: "list_all2 (\<lambda>e c. element_call pstr checker e = Inr c) (selectedLatticeList st) calls" .
  then have len: "length calls = length (selectedLatticeList st)"
    by (simp add: list_all2_lengthD)
  from l have l': "list_all2
             (\<lambda>element call. \<exists>n checked.
                element ''name'' = Some n \<and> checker element = Inr checked
                \<and> call = ''elements.'' @ pstr n @ ''(''
                     @ join '', '' (map (\<lambda>(key, value). key @ ''='' @ pstr value) checked)
                     @ '')'')
             (selectedLatticeList st) calls"
    unfolding element_call_Inr_iff .
  show ?thesis by (intro exI[of _ calls] conjI t len l')
qed

theorem lattice_one_call_per_element_in_order_witness:
  "build_lattice_list sample_str sample_checker sample_state
     = Inr ''lattice_configuration = [\<newline>    elements.Quad(ds=1.0, k=0.25),\<newline>    elements.Drift(ds=1.0)\<newline>]''
   \<and> (\<exists>calls.
         ''lattice_configuration = [\<newline>    elements.Quad(ds=1.0, k=0.25),\<newline>    elements.Drift(ds=1.0)\<newline>]''
           = ''lattice_configuration = [\<newline>    '' @ join '',\<newline>    '' calls @ ''\<newline>]''
         \<and> length calls = length (selectedLatticeList sample_state))"
proof -
  have h: "build_lattice_list sample_str sample_checker sample_state
     = Inr ''lattice_configuration = [\<newline>    elements.Quad(ds=1.0, k=0.25),\<newline>    elements.Drift(ds=1.0)\<newline>]''"
    by (simp add: sample_defs build_lattice_list_def element_call_def bind_result_simps)
  from lattice_one_call_per_element_in_order[OF h] obtain calls where
    a: "''lattice_configuration = [\<newline>    elements.Quad(ds=1.0, k=0.25),\<newline>    elements.Drift(ds=1.0)\<newline>]''
           = ''lattice_configuration = [\<newline>    '' @ join '',\<newline>    '' calls @ ''\<newline>]''"
    and b: "length calls = length (selectedLatticeList sample_state)"
    by (elim exE conjE)
  show ?thesis by (intro conjI h exI[of _ calls] a b)
qed

text \<open>
  Claim C10. The constructor identifier of a rendered element is the value under its
  \<^verbatim>\<open>"name"\<close> key. \<^verbatim>\<open>build_lattice_list\<close> returns a text exactly when every element has
  that key and the checker accepts every element; the text it returns contains
  \<^verbatim>\<open>elements.<name>(\<close> for every element. An element without the key makes
  \<^verbatim>\<open>build_lattice_list\<close> raise; when the checker accepts every element, the exception is
  \<^verbatim>\<open>KeyError('name')\<close>.
\<close>

theorem lattice_element_requires_name:
  "((\<exists>rendered. build_lattice_list pstr checker st = Inr rendered) \<longleftrightarrow>
      (\<forall>x\<in>set (selectedLatticeList st). \<exists>n checked.
         x ''name'' = Some n \<and> checker x = Inr checked))
   \<and> (build_lattice_list pstr checker st = Inr text \<longrightarrow>
      (\<forall>element\<in>set (selectedLatticeList st). \<exists>n.
         element ''name'' = Some n
         \<and> (\<exists>pre post. text = pre @ ''elements.'' @ pstr n @ ''('' @ post)))
   \<and> (element \<in> set (selectedLatticeList st) \<and> element ''name'' = None \<longrightarrow>
        (\<exists>err. build_lattice_list pstr checker st = Inl err))
   \<and> (element \<in> set (selectedLatticeList st) \<and> element ''name'' = None
        \<and> (\<forall>x\<in>set (selectedLatticeList st). \<exists>checked. checker x = Inr checked) \<longrightarrow>
        build_lattice_list pstr checker st = Inl (KeyError ''name''))"
proof -
  have returns: "(\<exists>rendered. build_lattice_list pstr checker st = Inr rendered) \<longleftrightarrow>
      (\<forall>x\<in>set (selectedLatticeList st). \<exists>n checked.
         x ''name'' = Some n \<and> checker x = Inr checked)"
    by (rule build_lattice_list_returns_iff)
  have uses: "build_lattice_list pstr checker st = Inr text \<longrightarrow>
      (\<forall>element\<in>set (selectedLatticeList st). \<exists>n.
         element ''name'' = Some n
         \<and> (\<exists>pre post. text = pre @ ''elements.'' @ pstr n @ ''('' @ post))"
  proof (rule impI)
    assume a: "build_lattice_list pstr checker st = Inr text"
    then obtain calls where
      c: "element_calls pstr checker (selectedLatticeList st) = Inr calls"
      and t: "text = ''lattice_configuration = [\<newline>    '' @ join '',\<newline>    '' calls @ ''\<newline>]''"
      unfolding build_lattice_list_Inr by (elim exE conjE)
    note l = element_calls_Inr[OF c]
    show "\<forall>element\<in>set (selectedLatticeList st). \<exists>n.
           element ''name'' = Some n
           \<and> (\<exists>pre post. text = pre @ ''elements.'' @ pstr n @ ''('' @ post)"
    proof
      fix e assume e: "e \<in> set (selectedLatticeList st)"
      from list_all2_pick[OF l e] obtain call where
        call: "call \<in> set calls" "element_call pstr checker e = Inr call"
        by (elim bexE)
      from call(2) obtain n kvs where n: "e ''name'' = Some n"
        and ce: "call = ''elements.'' @ pstr n @ ''(''
                @ join '', '' (map (\<lambda>(key, value). key @ ''='' @ pstr value) kvs) @ '')''"
        unfolding element_call_Inr_iff by (elim exE conjE)
      from join_contains[OF call(1), of "'',\<newline>    ''"] obtain pre post where
        j: "join '',\<newline>    '' calls = pre @ call @ post" by (elim exE)
      have "text = (''lattice_configuration = [\<newline>    '' @ pre) @ ''elements.'' @ pstr n @ ''(''
          @ (join '', '' (map (\<lambda>(key, value). key @ ''='' @ pstr value) kvs) @ '')'' @ post @ ''\<newline>]'')"
        unfolding t j ce by simp
      then have "\<exists>pre post. text = pre @ ''elements.'' @ pstr n @ ''('' @ post"
        by (intro exI)
      with n show "\<exists>n. e ''name'' = Some n
           \<and> (\<exists>pre post. text = pre @ ''elements.'' @ pstr n @ ''('' @ post)"
        by (intro exI[of _ n] conjI)
    qed
  qed
  have raises: "element \<in> set (selectedLatticeList st) \<and> element ''name'' = None \<longrightarrow>
        (\<exists>err. build_lattice_list pstr checker st = Inl err)"
  proof (rule impI)
    assume h: "element \<in> set (selectedLatticeList st) \<and> element ''name'' = None"
    then have "element_call pstr checker element = Inl (KeyError ''name'')"
      by (intro element_call_unnamed) simp
    with h element_calls_fail[of element "selectedLatticeList st" pstr checker "KeyError ''name''"]
    obtain err' where "element_calls pstr checker (selectedLatticeList st) = Inl err'"
      by (elim conjE) auto
    then have "build_lattice_list pstr checker st = Inl err'"
      by (simp add: build_lattice_list_def bind_result_simps)
    then show "\<exists>err. build_lattice_list pstr checker st = Inl err" ..
  qed
  have key_error: "element \<in> set (selectedLatticeList st) \<and> element ''name'' = None
        \<and> (\<forall>x\<in>set (selectedLatticeList st). \<exists>checked. checker x = Inr checked) \<longrightarrow>
        build_lattice_list pstr checker st = Inl (KeyError ''name'')"
  proof (rule impI)
    assume h: "element \<in> set (selectedLatticeList st) \<and> element ''name'' = None
          \<and> (\<forall>x\<in>set (selectedLatticeList st). \<exists>checked. checker x = Inr checked)"
    with element_calls_KeyError[of element "selectedLatticeList st" checker pstr]
    have "element_calls pstr checker (selectedLatticeList st) = Inl (KeyError ''name'')"
      by (elim conjE) simp
    then show "build_lattice_list pstr checker st = Inl (KeyError ''name'')"
      by (simp add: build_lattice_list_def bind_result_simps)
  qed
  show ?thesis by (intro conjI returns uses raises key_error)
qed

theorem lattice_element_requires_name_witness:
  "[''name'' \<mapsto> ''Quad'', ''ds'' \<mapsto> ''1.0'', ''k'' \<mapsto> ''0.25''] ''name'' = Some ''Quad''
   \<and> [''name'' \<mapsto> ''Drift'', ''ds'' \<mapsto> ''1.0''] ''name'' = Some ''Drift''
   \<and> (\<exists>rendered. build_lattice_list sample_str sample_checker sample_state = Inr rendered)
   \<and> build_lattice_list sample_str sample_checker sample_state
       = Inr ''lattice_configuration = [\<newline>    elements.Quad(ds=1.0, k=0.25),\<newline>    elements.Drift(ds=1.0)\<newline>]''
   \<and> [''ds'' \<mapsto> ''1.0''] \<in> set (selectedLatticeList unnamed_state)
   \<and> [''ds'' \<mapsto> ''1.0''] ''name'' = None
   \<and> build_lattice_list sample_str sample_checker unnamed_state = Inl (KeyError ''name'')"
proof -
  let ?e = "[''ds'' \<mapsto> ''1.0'']"
  have q: "[''name'' \<mapsto> ''Quad'', ''ds'' \<mapsto> ''1.0'', ''k'' \<mapsto> ''0.25''] ''name'' = Some ''Quad''"
    by simp
  have d: "[''name'' \<mapsto> ''Drift'', ''ds'' \<mapsto> ''1.0''] ''name'' = Some ''Drift''"
    by simp
  have named: "\<forall>x\<in>set (selectedLatticeList sample_state). \<exists>n checked.
      x ''name'' = Some n \<and> sample_checker x = Inr checked"
    by (simp add: sample_state_def sample_checker_def)
  have a: "?e \<in> set (selectedLatticeList unnamed_state)"
    by (simp add: unnamed_state_def sample_state_def)
  have b: "?e ''name'' = None" by simp
  have c: "\<forall>x\<in>set (selectedLatticeList unnamed_state). \<exists>checked. sample_checker x = Inr checked"
    by (simp add: sample_checker_def)
  have t: "build_lattice_list sample_str sample_checker sample_state
       = Inr ''lattice_configuration = [\<newline>    elements.Quad(ds=1.0, k=0.25),\<newline>    elements.Drift(ds=1.0)\<newline>]''"
    by (simp add: sample_defs build_lattice_list_def element_call_def bind_result_simps)
  from lattice_element_requires_name[of sample_str sample_checker sample_state "[]" ?e]
  have "(\<exists>rendered. build_lattice_list sample_str sample_checker sample_state = Inr rendered) \<longleftrightarrow>
      (\<forall>x\<in>set (selectedLatticeList sample_state). \<exists>n checked.
         x ''name'' = Some n \<and> sample_checker x = Inr checked)"
    by (elim conjE)
  with named have r: "\<exists>rendered. build_lattice_list sample_str sample_checker sample_state = Inr rendered"
    by (elim iffE impE)
  from lattice_element_requires_name[of sample_str sample_checker unnamed_state "[]" ?e]
  have "?e \<in> set (selectedLatticeList unnamed_state) \<and> ?e ''name'' = None
        \<and> (\<forall>x\<in>set (selectedLatticeList unnamed_state). \<exists>checked. sample_checker x = Inr checked) \<longrightarrow>
        build_lattice_list sample_str sample_checker unnamed_state = Inl (KeyError ''name'')"
    by (elim conjE)
  with a b c have f: "build_lattice_list sample_str sample_checker unnamed_state = Inl (KeyError ''name'')"
    by (elim impE) (intro conjI)
  show ?thesis by (intro conjI q d r t a b f)
qed

section \<open>Properties of the distribution renderer\<close>

text \<open>
  Claim C2. Whenever \<^verbatim>\<open>build_distribution_list\<close> returns a text, with \<open>m\<close> the
  validated dictionary: if the selected distribution type is \<^verbatim>\<open>"Twiss"\<close>, the text is
  the opening line, the line \<^verbatim>\<open>**twiss(\<close>, one line per entry of \<open>m\<close> that starts with
  eight spaces, and the two closing lines; for any other type it is the opening line,
  one line per entry of \<open>m\<close> that starts with four spaces, and the closing line, with no
  \<^verbatim>\<open>twiss\<close> line between them.
\<close>

theorem twiss_indentation_and_wrapper:
  assumes "build_distribution_list pfloat zero pstr st = Inr text"
  shows "\<exists>m. convert_distribution_parameters_to_valid_type pfloat zero st = Inr m
     \<and> (selectedDistributionType st = ''Twiss'' \<longrightarrow>
          text = ''distr = distribution.'' @ selectedDistribution st @ ''(\<newline>''
               @ ''    **twiss(\<newline>''
               @ join '',\<newline>'' (map (\<lambda>(key, value). ''        '' @ key @ ''='' @ pstr value) m)
               @ '',\<newline>''
               @ ''    )\<newline>''
               @ '')'')
     \<and> (selectedDistributionType st \<noteq> ''Twiss'' \<longrightarrow>
          text = ''distr = distribution.'' @ selectedDistribution st @ ''(\<newline>''
               @ join '',\<newline>'' (map (\<lambda>(key, value). ''    '' @ key @ ''='' @ pstr value) m)
               @ '',\<newline>''
               @ '')'')"
proof -
  from assms obtain m where
    m: "convert_distribution_parameters_to_valid_type pfloat zero st = Inr m"
    and t: "text =
           (if selectedDistributionType st = ''Twiss'' then
              ''distr = distribution.'' @ selectedDistribution st @ ''(\<newline>''
              @ ''    **twiss(\<newline>''
              @ join '',\<newline>'' (map (\<lambda>(key, value). replicate 8 CHR '' '' @ key @ ''='' @ pstr value) m)
              @ '',\<newline>'' @ ''    )\<newline>'' @ '')''
            else
              ''distr = distribution.'' @ selectedDistribution st @ ''(\<newline>''
              @ join '',\<newline>'' (map (\<lambda>(key, value). replicate 4 CHR '' '' @ key @ ''='' @ pstr value) m)
              @ '',\<newline>'' @ '')'')"
    unfolding build_distribution_list_Inr by (elim exE conjE)
  have a: "selectedDistributionType st = ''Twiss'' \<longrightarrow>
          text = ''distr = distribution.'' @ selectedDistribution st @ ''(\<newline>''
               @ ''    **twiss(\<newline>''
               @ join '',\<newline>'' (map (\<lambda>(key, value). ''        '' @ key @ ''='' @ pstr value) m)
               @ '',\<newline>''
               @ ''    )\<newline>''
               @ '')''"
    unfolding t replicate_8_space by simp
  have b: "selectedDistributionType st \<noteq> ''Twiss'' \<longrightarrow>
          text = ''distr = distribution.'' @ selectedDistribution st @ ''(\<newline>''
               @ join '',\<newline>'' (map (\<lambda>(key, value). ''    '' @ key @ ''='' @ pstr value) m)
               @ '',\<newline>''
               @ '')''"
    unfolding t replicate_4_space by simp
  show ?thesis by (intro exI[of _ m] conjI m a b)
qed

theorem twiss_indentation_and_wrapper_witness:
  "build_distribution_list sample_float ''0.0'' sample_str twiss_state
     = Inr ''distr = distribution.Waterbag(\<newline>    **twiss(\<newline>        lambdaX=0.0011609826000864882,\<newline>        muxpx=0.0,\<newline>    )\<newline>)''
   \<and> selectedDistributionType twiss_state = ''Twiss''
   \<and> build_distribution_list sample_float ''0.0'' sample_str sample_state
     = Inr ''distr = distribution.Waterbag(\<newline>    lambdaX=0.0011609826000864882,\<newline>    muxpx=0.0,\<newline>)''
   \<and> selectedDistributionType sample_state \<noteq> ''Twiss''
   \<and> (\<exists>m. convert_distribution_parameters_to_valid_type sample_float ''0.0'' twiss_state = Inr m)"
proof -
  have c: "convert_distribution_parameters_to_valid_type sample_float ''0.0'' twiss_state
     = Inr [(''lambdaX'', ''0.0011609826000864882''), (''muxpx'', ''0.0'')]"
    by (simp add: sample_defs loop_Cons)
  have c': "convert_distribution_parameters_to_valid_type sample_float ''0.0'' sample_state
     = Inr [(''lambdaX'', ''0.0011609826000864882''), (''muxpx'', ''0.0'')]"
    by (simp add: sample_defs loop_Cons)
  have t: "selectedDistributionType twiss_state = ''Twiss''"
    by (simp add: twiss_state_def)
  have s: "selectedDistributionType sample_state \<noteq> ''Twiss''"
    by (simp add: sample_state_def)
  have n: "selectedDistribution twiss_state = ''Waterbag''" "selectedDistribution sample_state = ''Waterbag''"
    by (simp_all add: twiss_state_def sample_state_def)
  have h: "build_distribution_list sample_float ''0.0'' sample_str twiss_state
     = Inr ''distr = distribution.Waterbag(\<newline>    **twiss(\<newline>        lambdaX=0.0011609826000864882,\<newline>        muxpx=0.0,\<newline>    )\<newline>)''"
    unfolding build_distribution_list_def Let_def c bind_result_simps t n
    by (simp add: sample_str_def replicate_8_space)
  have h': "build_distribution_list sample_float ''0.0'' sample_str sample_state
     = Inr ''distr = distribution.Waterbag(\<newline>    lambdaX=0.0011609826000864882,\<newline>    muxpx=0.0,\<newline>)''"
    unfolding build_distribution_list_def Let_def c' bind_result_simps n
    using s by (simp add: sample_str_def replicate_4_space)
  from twiss_indentation_and_wrapper[OF h] obtain m where
    "convert_distribution_parameters_to_valid_type sample_float ''0.0'' twiss_state = Inr m"
    by (elim exE conjE)
  then have e: "\<exists>m. convert_distribution_parameters_to_valid_type sample_float ''0.0'' twiss_state = Inr m" ..
  show ?thesis by (intro conjI h t h' s e)
qed

section \<open>Properties of the script template\<close>

text \<open>
  Claim C8. Whenever \<^verbatim>\<open>input_file\<close> returns a script, the lifecycle statements occur
  in it one after the other in the fixed order: the four configuration flag
  assignments, \<^verbatim>\<open>init_grids\<close>, the reference particle with its three chained setters,
  the distribution constructor, \<^verbatim>\<open>add_particles\<close>, the lattice list and its
  \<^verbatim>\<open>extend\<close>, \<^verbatim>\<open>track_particles\<close>, \<^verbatim>\<open>finalize\<close>.
\<close>

theorem input_file_lifecycle_order:
  assumes "input_file pfloat zero pstr checker st = Inr script"
  shows "occur_in_order lifecycle_statements script"
proof -
  from input_file_Inr[OF assms] obtain d l where
    d: "build_distribution_list pfloat zero pstr st = Inr d"
    and l: "build_lattice_list pstr checker st = Inr l"
    and s: "script = ''\<newline>''
                 @ ''from impactx import ImpactX, distribution, elements, twiss\<newline>''
                 @ ''\<newline>''
                 @ ''sim = ImpactX()\<newline>''
                 @ ''\<newline>''
                 @ ''sim.particle_shape = '' @ pstr (particle_shape st) @ ''\<newline>''
                 @ ''sim.space_charge = False\<newline>''
                 @ ''sim.csr = False\<newline>''
                 @ ''sim.slice_step_diagnostics = True\<newline>''
                 @ ''\<newline>''
                 @ ''sim.init_grids()\<newline>''
                 @ ''\<newline>''
                 @ ''# Initialize particle beam\<newline>''
                 @ ''kin_energy_MeV = '' @ pstr (kin_energy_MeV st) @ ''\<newline>''
                 @ ''bunch_charge_C = '' @ pstr (bunch_charge_C st) @ ''\<newline>''
                 @ ''npart = '' @ pstr (npart st) @ ''\<newline>''
                 @ ''\<newline>''
                 @ ''# Reference particle\<newline>''
                 @ ''ref = sim.particle_container().ref_particle()\<newline>''
                 @ ''ref.set_charge_qe('' @ pstr (charge_qe st)
                 @ '').set_mass_MeV('' @ pstr (mass_MeV st)
                 @ '').set_kin_energy_MeV(kin_energy_MeV)\<newline>''
                 @ ''\<newline>''
                 @ d @ ''\<newline>''
                 @ ''sim.add_particles(bunch_charge_C, distr, npart)\<newline>''
                 @ ''\<newline>''
                 @ l @ ''\<newline>''
                 @ ''sim.lattice.extend(lattice_configuration)\<newline>''
                 @ ''\<newline>''
                 @ ''# Simulate\<newline>''
                 @ ''sim.track_particles()\<newline>''
                 @ ''\<newline>''
                 @ ''sim.finalize()\<newline>''"
    by (elim exE conjE)
  from build_distribution_list_opening[OF d] obtain drest where
    dr: "d = ''distr = distribution.'' @ drest" ..
  from build_lattice_list_opening[OF l] obtain lrest where
    lr: "l = ''lattice_configuration = ['' @ lrest" ..
  define segs where "segs =
    [(''\<newline>from impactx import ImpactX, distribution, elements, twiss\<newline>\<newline>sim = ImpactX()\<newline>\<newline>'',
        ''sim.particle_shape = ''),
     (pstr (particle_shape st) @ ''\<newline>'', ''sim.space_charge = False''),
     (''\<newline>'', ''sim.csr = False''),
     (''\<newline>'', ''sim.slice_step_diagnostics = True''),
     (''\<newline>\<newline>'', ''sim.init_grids()''),
     (''\<newline>\<newline># Initialize particle beam\<newline>kin_energy_MeV = '' @ pstr (kin_energy_MeV st)
        @ ''\<newline>bunch_charge_C = '' @ pstr (bunch_charge_C st)
        @ ''\<newline>npart = '' @ pstr (npart st) @ ''\<newline>\<newline># Reference particle\<newline>'',
        ''ref = sim.particle_container().ref_particle()''),
     (''\<newline>'', ''ref.set_charge_qe(''),
     (pstr (charge_qe st), '').set_mass_MeV(''),
     (pstr (mass_MeV st), '').set_kin_energy_MeV(kin_energy_MeV)''),
     (''\<newline>\<newline>'', ''distr = distribution.''),
     (drest @ ''\<newline>'', ''sim.add_particles(bunch_charge_C, distr, npart)''),
     (''\<newline>\<newline>'', ''lattice_configuration = [''),
     (lrest @ ''\<newline>'', ''sim.lattice.extend(lattice_configuration)''),
     (''\<newline>\<newline># Simulate\<newline>'', ''sim.track_particles()''),
     (''\<newline>\<newline>'', ''sim.finalize()'')]"
  have m: "map snd segs = lifecycle_statements"
    by (simp add: segs_def lifecycle_statements_def)
  have e: "script = concat (map (\<lambda>(pre, mark). pre @ mark) segs) @ ''\<newline>''"
    unfolding s dr lr segs_def by simp
  from occur_in_order_segments[of segs "''\<newline>''"] show ?thesis
    unfolding m e .
qed

theorem input_file_lifecycle_order_witness:
  "input_file sample_float ''0.0'' sample_str sample_checker sample_state = Inr sample_script
   \<and> occur_in_order lifecycle_statements sample_script"
proof -
  have c: "convert_distribution_parameters_to_valid_type sample_float ''0.0'' sample_state
     = Inr [(''lambdaX'', ''0.0011609826000864882''), (''muxpx'', ''0.0'')]"
    by (simp add: sample_defs loop_Cons)
  have d: "build_distribution_list sample_float ''0.0'' sample_str sample_state
     = Inr ''distr = distribution.Waterbag(\<newline>    lambdaX=0.0011609826000864882,\<newline>    muxpx=0.0,\<newline>)''"
    unfolding build_distribution_list_def Let_def c bind_result_simps
    by (simp add: sample_state_def sample_str_def replicate_4_space)
  have l: "build_lattice_list sample_str sample_checker sample_state
     = Inr ''lattice_configuration = [\<newline>    elements.Quad(ds=1.0, k=0.25),\<newline>    elements.Drift(ds=1.0)\<newline>]''"
    by (simp add: sample_defs build_lattice_list_def element_call_def bind_result_simps)
  have h: "input_file sample_float ''0.0'' sample_str sample_checker sample_state = Inr sample_script"
    unfolding input_file_def d l bind_result_simps
    by (simp add: sample_state_def sample_str_def sample_script_def)
  from input_file_lifecycle_order[OF h] h show ?thesis by (intro conjI)
qed

section \<open>Reading the rendered distribution back\<close>




text \<open>
  Claim C5 says that the exported text is valid source text for every configuration,
  the empty lattice list and the empty validated dictionary included. The empty lattice
  list renders as a bracket pair around blank space, which is a valid empty list. The
  empty validated dictionary does not: the template writes the comma after the last
  parameter also when there is no parameter, so the constructor call has a lone comma
  between its parentheses, which Python rejects, and which \<open>reparse_keywords\<close>
  rejects too. The state below has one record, and that record carries an error
  message.
\<close>

theorem empty_mapping_renders_lone_comma:
  "convert_distribution_parameters_to_valid_type sample_float ''0.0'' rejected_state = Inr []
   \<and> build_distribution_list sample_float ''0.0'' sample_str rejected_state
       = Inr ''distr = distribution.Waterbag(\<newline>,\<newline>)''
   \<and> reparse_keywords sample_float ''distr = distribution.Waterbag(\<newline>,\<newline>)'' = None
   \<and> build_lattice_list sample_str sample_checker rejected_state
       = Inr ''lattice_configuration = [\<newline>    \<newline>]''"
proof -
  have c: "convert_distribution_parameters_to_valid_type sample_float ''0.0'' rejected_state = Inr []"
    by (simp add: sample_defs loop_Cons)
  have d: "build_distribution_list sample_float ''0.0'' sample_str rejected_state
       = Inr ''distr = distribution.Waterbag(\<newline>,\<newline>)''"
    unfolding build_distribution_list_def Let_def c bind_result_simps
    by (simp add: rejected_state_def sample_state_def)
  have r: "reparse_keywords sample_float ''distr = distribution.Waterbag(\<newline>,\<newline>)'' = None"
    by (simp add: reparse_keywords_def reparse_call_def argument_lines_def strip_closing_def
        keyword_arguments_def parse_argument_def is_argument_name_def is_identifier_def
        identifier_char_def)
  have l: "build_lattice_list sample_str sample_checker rejected_state
       = Inr ''lattice_configuration = [\<newline>    \<newline>]''"
    by (simp add: rejected_state_def build_lattice_list_def bind_result_simps)
  show ?thesis by (intro conjI c d r l)
qed

end
